theory Spec2Isabelle
  imports
    Complex_Main
    "HOL-Library.Sublist"
    "HOL-Library.List_Lexorder"
    "HOL-Library.Char_ord"
    "HOL-Library.Monad_Syntax"
begin

section \<open>The data set (app.py, lines 10 to 12)\<close>

text \<open>
  A cell of the column \<open>satisfaction_bucket\<close> is either missing (pandas' NaN) or a
  present value; \<open>Label s\<close> is a present value whose \<open>str()\<close> is \<open>s\<close>.
\<close>

datatype cell = NaN | Label string

text \<open>
  One listing. A numeric column holds float64 values; each of them is a rational number
  and the field holds it as it is. Their only arithmetic, the mean of a group, is the
  library's (\<open>float_mean\<close> below). The columns \<open>room_type\<close>,
  \<open>time_period\<close> and \<open>distance_bucket\<close> hold text: line 29 of the source sorts the
  values of \<open>room_type\<close>, which Python only does when none is missing. The type
  parameter is the type of the satisfaction column: \<open>string\<close> in the file, \<open>cell\<close>
  once loaded. The source's column \<open>dist\<close> is the field \<open>dist_centre\<close>.
\<close>

record 'b listing =
  realSum :: rat
  price_per_person :: rat
  dist_centre :: rat
  attr_index :: rat
  person_capacity :: rat
  room_type :: string
  time_period :: string
  distance_bucket :: string
  satisfaction_bucket :: 'b
  host_is_superhost :: bool

type_synonym row = "cell listing"

text \<open>A data frame: the rows in order, each with its index label.\<close>

type_synonym frame = "(nat \<times> row) list"

text \<open>The texts that \<open>pd.read_csv\<close> reads as a missing value by default.\<close>

definition STR_NA_VALUES :: "string list" where
  "STR_NA_VALUES =
     [''-1.#IND'', ''1.#QNAN'', ''1.#IND'', ''-1.#QNAN'', ''#N/A N/A'', ''#N/A'',
      ''N/A'', ''n/a'', ''NA'', ''<NA>'', ''#NA'', ''NULL'', ''null'', ''NaN'',
      ''-NaN'', ''nan'', ''-nan'', ''None'', '''']"

definition read_cell :: "string \<Rightarrow> cell" where
  "read_cell s = (if s \<in> set STR_NA_VALUES then NaN else Label s)"

definition read_row :: "string listing \<Rightarrow> row" where
  "read_row r =
     \<lparr> realSum = realSum r, price_per_person = price_per_person r,
       dist_centre = dist_centre r, attr_index = attr_index r,
       person_capacity = person_capacity r, room_type = room_type r,
       time_period = time_period r, distance_bucket = distance_bucket r,
       satisfaction_bucket = read_cell (satisfaction_bucket r),
       host_is_superhost = host_is_superhost r \<rparr>"

text \<open>\<open>df = pd.read_csv(...)\<close>: the records of the file, labelled 0, 1, 2, ...\<close>

definition read_csv :: "string listing list \<Rightarrow> frame" where
  "read_csv recs = enumerate 0 (map read_row recs)"

text \<open>
  \<open>astype("category")\<close> (lines 11 and 12) leaves the values as they are and gives the
  column its categories, the distinct values in sorted order. A frame cut out of \<open>df\<close>
  keeps the categories of \<open>df\<close>.
\<close>

definition categories :: "(row \<Rightarrow> string) \<Rightarrow> frame \<Rightarrow> string list" where
  "categories col d = sort (remdups (map (\<lambda>x. col (snd x)) d))"

section \<open>The installed pandas\<close>

text \<open>
  The repository does not fix the version of pandas, and the source leaves three things
  to the library:
  \<^item> the argument \<open>observed\<close> of \<open>groupby\<close> on categorical keys, by default \<open>False\<close>
    before pandas 3.0 and \<open>True\<close> from 3.0 on;
  \<^item> what \<open>astype(str)\<close> makes of a missing value: the text \<open>nan\<close> before 3.0, while from
    3.0 on the value stays missing;
  \<^item> \<open>mean()\<close> of the float64 values of a group, a float64 again: the arithmetic mean
    up to rounding, not always the arithmetic mean itself.
  They are the fields of a record, and every function that depends on one of them takes
  the record as its first argument \<open>pd\<close>. Nothing is assumed about \<open>float_mean\<close>.
\<close>

record pandas =
  observed_default :: bool
  na_as_text :: bool
  float_mean :: "rat list \<Rightarrow> rat"

section \<open>The filter (app.py, lines 235 to 243)\<close>

text \<open>
  What a callback receives from a multi-select control is \<open>None\<close> or a list of texts,
  from the single-select one \<open>None\<close> or a text. Python's \<open>if v:\<close> is false for
  \<open>None\<close> and for the empty list.
\<close>

definition truthy :: "string list option \<Rightarrow> bool" where
  "truthy v = (case v of None \<Rightarrow> False | Some xs \<Rightarrow> xs \<noteq> [])"

text \<open>
  \<open>Series.isin(values)\<close>, row by row. It is only called under \<open>truthy\<close>, so the value
  at \<open>None\<close> is never used.
\<close>

definition isin :: "string \<Rightarrow> string list option \<Rightarrow> bool" where
  "isin v values = (case values of None \<Rightarrow> False | Some xs \<Rightarrow> v \<in> set xs)"

text \<open>
  \<open>astype(str)\<close> on one cell: a present value becomes its text; a missing value becomes
  the text \<open>nan\<close> where the library does that, and stays missing otherwise.
\<close>

fun astype_str :: "bool \<Rightarrow> cell \<Rightarrow> cell" where
  "astype_str na_text NaN = (if na_text then Label ''nan'' else NaN)"
| "astype_str na_text (Label s) = Label s"

text \<open>
  \<open>column == sat\<close> on one cell: a missing value equals nothing, and \<open>None\<close> equals no
  text.
\<close>

fun eq_scalar :: "cell \<Rightarrow> string option \<Rightarrow> bool" where
  "eq_scalar NaN sat = False"
| "eq_scalar (Label s) sat = (sat = Some s)"

text \<open>\<open>d[mask]\<close>: the rows where the boolean mask holds, with their labels, in the order of \<open>d\<close>.\<close>

definition getitem :: "frame \<Rightarrow> (row \<Rightarrow> bool) \<Rightarrow> frame" where
  "getitem d keep = filter (\<lambda>x. keep (snd x)) d"

text \<open>\<open>df.copy()\<close> has the rows of \<open>df\<close>.\<close>

definition copy :: "frame \<Rightarrow> frame" where
  "copy d = d"

definition filter_df ::
  "pandas \<Rightarrow> frame \<Rightarrow> string list option \<Rightarrow> string list option \<Rightarrow> string option
     \<Rightarrow> frame" where
  "filter_df pd df room_types time_periods sat =
     (let d = copy df;
          d = (if truthy room_types
               then getitem d (\<lambda>r. isin (room_type r) room_types) else d);
          d = (if truthy time_periods
               then getitem d (\<lambda>r. isin (time_period r) time_periods) else d);
          d = (if sat \<noteq> Some ''All''
               then getitem d
                      (\<lambda>r. eq_scalar (astype_str (na_as_text pd) (satisfaction_bucket r)) sat)
               else d)
      in d)"

subsection \<open>The first two steps of the filter alone (lines 236 to 240)\<close>

definition filter_room_time ::
  "frame \<Rightarrow> string list option \<Rightarrow> string list option \<Rightarrow> frame" where
  "filter_room_time df room_types time_periods =
     (let d = copy df;
          d = (if truthy room_types
               then getitem d (\<lambda>r. isin (room_type r) room_types) else d);
          d = (if truthy time_periods
               then getitem d (\<lambda>r. isin (time_period r) time_periods) else d)
      in d)"

subsection \<open>The three conditions, in the words of the specification\<close>

definition members :: "string list option \<Rightarrow> string set" where
  "members v = (case v of None \<Rightarrow> {} | Some xs \<Rightarrow> set xs)"

definition passes_room :: "string list option \<Rightarrow> row \<Rightarrow> bool" where
  "passes_room room_types r \<longleftrightarrow>
     (members room_types \<noteq> {} \<longrightarrow> room_type r \<in> members room_types)"

definition passes_time :: "string list option \<Rightarrow> row \<Rightarrow> bool" where
  "passes_time time_periods r \<longleftrightarrow>
     (members time_periods \<noteq> {} \<longrightarrow> time_period r \<in> members time_periods)"

text \<open>
  The string representation of the bucket of a row, if it has one: a bucket that is still
  missing after \<open>astype(str)\<close> has none.
\<close>

definition bucket_text :: "pandas \<Rightarrow> row \<Rightarrow> string option" where
  "bucket_text pd r =
     (case astype_str (na_as_text pd) (satisfaction_bucket r) of
        NaN \<Rightarrow> None
      | Label s \<Rightarrow> Some s)"

definition passes_sat :: "pandas \<Rightarrow> string option \<Rightarrow> row \<Rightarrow> bool" where
  "passes_sat pd sat r \<longleftrightarrow>
     (sat \<noteq> Some ''All'' \<longrightarrow> bucket_text pd r \<noteq> None \<and> bucket_text pd r = sat)"

definition satisfies ::
  "pandas \<Rightarrow> string list option \<Rightarrow> string list option \<Rightarrow> string option \<Rightarrow> row \<Rightarrow> bool" where
  "satisfies pd room_types time_periods sat r \<longleftrightarrow>
     passes_room room_types r \<and> passes_time time_periods r \<and> passes_sat pd sat r"

text \<open>The texts that the buckets of the rows of a frame have.\<close>

definition bucket_texts :: "pandas \<Rightarrow> frame \<Rightarrow> string set" where
  "bucket_texts pd df = set (List.map_filter (\<lambda>x. bucket_text pd (snd x)) df)"

section \<open>The options of the controls (app.py, lines 29 to 33)\<close>

text \<open>\<open>Series.unique()\<close>: the distinct values in the order of their first appearance.\<close>

definition unique :: "'a list \<Rightarrow> 'a list" where
  "unique xs = rev (remdups (rev xs))"

definition dropna :: "cell list \<Rightarrow> cell list" where
  "dropna cs = filter (\<lambda>c. c \<noteq> NaN) cs"

text \<open>Python's \<open>str(s)\<close> of the value of a cell.\<close>

fun str_of :: "cell \<Rightarrow> string" where
  "str_of NaN = ''nan''"
| "str_of (Label s) = s"

text \<open>Each option is a pair of a label and a value.\<close>

definition room_type_options :: "frame \<Rightarrow> (string \<times> string) list" where
  "room_type_options df =
     map (\<lambda>rt. (rt, rt)) (sort (unique (map (\<lambda>x. room_type (snd x)) df)))"

definition time_period_options :: "frame \<Rightarrow> (string \<times> string) list" where
  "time_period_options df = map (\<lambda>tp. (tp, tp)) (categories time_period df)"

definition sat_bucket_options :: "frame \<Rightarrow> (string \<times> string) list" where
  "sat_bucket_options df =
     map (\<lambda>s. (str_of s, str_of s))
       (unique (dropna (map (\<lambda>x. satisfaction_bucket (snd x)) df)))"

section \<open>The aggregation (app.py, lines 293 to 297)\<close>

text \<open>The key of a row: \<open>(distance_bucket, room_type, time_period)\<close>.\<close>

type_synonym gkey = "string \<times> string \<times> string"

definition gkey :: "row \<Rightarrow> gkey" where
  "gkey r = (distance_bucket r, room_type r, time_period r)"

text \<open>
  \<open>mean()\<close> of the values of a group: of no value it is the missing value, here
  \<open>None\<close>; otherwise it is what the library's float64 mean returns for them.
\<close>

definition mean :: "pandas \<Rightarrow> rat list \<Rightarrow> rat option" where
  "mean pd xs = (if xs = [] then None else Some (float_mean pd xs))"

text \<open>
  \<open>d.groupby([distance_bucket, room_type, time_period], as_index=False)[realSum].mean()\<close>
  with the column renamed to \<open>avg_price\<close>: one row for each key shown, with the mean
  of \<open>realSum\<close> over the rows of \<open>d\<close> that have the key, in the sorted order of the keys.

  Two of the three key columns are categorical (lines 11 and 12), and the source leaves
  the argument \<open>observed\<close> to the library. With \<open>observed=False\<close> pandas shows every
  combination of a value of \<open>distance_bucket\<close> present in \<open>d\<close> with every category of
  \<open>room_type\<close> and every category of \<open>time_period\<close>; with \<open>observed=True\<close> only the
  combinations that some row of \<open>d\<close> has.
\<close>

definition groupby_mean ::
  "pandas \<Rightarrow> string list \<Rightarrow> string list \<Rightarrow> frame \<Rightarrow> (gkey \<times> rat option) list" where
  "groupby_mean pd room_cats time_cats d =
     (let levels = List.product (sort (remdups (map (\<lambda>x. distance_bucket (snd x)) d)))
                     (List.product room_cats time_cats);
          shown = (if observed_default pd
                   then filter (\<lambda>k. k \<in> set (map (\<lambda>x. gkey (snd x)) d)) levels
                   else levels)
      in map (\<lambda>k. (k, mean pd (map (\<lambda>x. realSum (snd x)) (filter (\<lambda>x. gkey (snd x) = k) d))))
           shown)"

text \<open>The frame \<open>grp\<close> of \<open>update_avg\<close>.\<close>

definition aggregate ::
  "pandas \<Rightarrow> frame \<Rightarrow> string list option \<Rightarrow> string list option \<Rightarrow> string option
     \<Rightarrow> (gkey \<times> rat option) list" where
  "aggregate pd df room timep sat =
     (let d = filter_df pd df room timep sat
      in groupby_mean pd (categories room_type df) (categories time_period df) d)"

section \<open>The chart callbacks (app.py, lines 250 to 382)\<close>

text \<open>
  A chart description: what the callback hands to the charting library, that is the
  frame and the parameters of the call. Rendering is the library's.
\<close>

datatype chart = Scatter | Bar | Box | Histogram

datatype plotted = Rows frame | Groups "(gkey \<times> rat option) list"

record layout_image =
  source :: string
  xref :: string
  yref :: string
  img_x :: rat
  img_y :: rat
  sizex :: rat
  sizey :: rat
  xanchor :: string
  yanchor :: string
  opacity :: rat

record figure =
  chart :: chart
  plotted :: plotted
  x_field :: string
  y_field :: "string option"
  color_field :: string
  size_field :: "string option"
  animation_frame :: "string option"
  facet_col :: "string option"
  hover_data :: "string list"
  nbins :: "nat option"
  barmode :: "string option"
  marker_opacity :: "rat option"
  title :: string
  layout_images :: "layout_image list"

text \<open>\<open>fig.add_layout_image(dict(...))\<close>.\<close>

definition add_layout_image :: "layout_image \<Rightarrow> figure \<Rightarrow> figure" where
  "add_layout_image img fig = fig\<lparr>layout_images := layout_images fig @ [img]\<rparr>"

definition update_price_dist ::
  "pandas \<Rightarrow> frame \<Rightarrow> string list option \<Rightarrow> string list option \<Rightarrow> string option
     \<Rightarrow> figure" where
  "update_price_dist pd df room timep sat =
     (let d = filter_df pd df room timep sat;
          fig = \<lparr> chart = Scatter, plotted = Rows d, x_field = ''dist'',
                  y_field = Some ''realSum'', color_field = ''room_type'',
                  size_field = Some ''person_capacity'',
                  animation_frame = Some ''satisfaction_bucket'',
                  facet_col = Some ''time_period'',
                  hover_data = [''price_per_person'', ''host_is_superhost''],
                  nbins = None, barmode = None, marker_opacity = None,
                  title = ''Price vs Distance to City Center'', layout_images = [] \<rparr>
      in add_layout_image
           \<lparr> source = ''/assets/airbnb_logo.png'', xref = ''paper'', yref = ''paper'',
             img_x = 115 / 100, img_y = 0, sizex = 32 / 100, sizey = 32 / 100,
             xanchor = ''right'', yanchor = ''bottom'', opacity = 15 / 100 \<rparr>
           fig)"

definition update_avg ::
  "pandas \<Rightarrow> frame \<Rightarrow> string list option \<Rightarrow> string list option \<Rightarrow> string option
     \<Rightarrow> figure" where
  "update_avg pd df room timep sat =
     (let grp = aggregate pd df room timep sat
      in \<lparr> chart = Bar, plotted = Groups grp, x_field = ''distance_bucket'',
           y_field = Some ''avg_price'', color_field = ''time_period'',
           size_field = None, animation_frame = Some ''room_type'', facet_col = None,
           hover_data = [], nbins = None, barmode = Some ''group'', marker_opacity = None,
           title = ''Average Price by Distance Bucket'', layout_images = [] \<rparr>)"

definition update_attr ::
  "pandas \<Rightarrow> frame \<Rightarrow> string list option \<Rightarrow> string list option \<Rightarrow> string option
     \<Rightarrow> figure" where
  "update_attr pd df room timep sat =
     (let d = filter_df pd df room timep sat
      in \<lparr> chart = Scatter, plotted = Rows d, x_field = ''attr_index'',
           y_field = Some ''price_per_person'', color_field = ''satisfaction_bucket'',
           size_field = None, animation_frame = None, facet_col = Some ''time_period'',
           hover_data = [''room_type'', ''distance_bucket''], nbins = None,
           barmode = None, marker_opacity = None,
           title = ''Attractions Index vs Price per Person'', layout_images = [] \<rparr>)"

definition update_box ::
  "pandas \<Rightarrow> frame \<Rightarrow> string list option \<Rightarrow> string list option \<Rightarrow> string option
     \<Rightarrow> figure" where
  "update_box pd df room timep sat =
     (let d = filter_df pd df room timep sat
      in \<lparr> chart = Box, plotted = Rows d, x_field = ''distance_bucket'',
           y_field = Some ''price_per_person'', color_field = ''time_period'',
           size_field = None, animation_frame = None, facet_col = None,
           hover_data = [], nbins = None, barmode = None, marker_opacity = None,
           title = ''Price per Person by Distance Bucket'', layout_images = [] \<rparr>)"

definition update_hist ::
  "pandas \<Rightarrow> frame \<Rightarrow> string list option \<Rightarrow> string list option \<Rightarrow> string option
     \<Rightarrow> figure" where
  "update_hist pd df room timep sat =
     (let d = filter_df pd df room timep sat;
          fig = \<lparr> chart = Histogram, plotted = Rows d, x_field = ''realSum'',
                  y_field = None, color_field = ''satisfaction_bucket'',
                  size_field = None, animation_frame = None, facet_col = None,
                  hover_data = [], nbins = Some 40, barmode = None,
                  marker_opacity = Some (75 / 100), title = ''Price Distribution'',
                  layout_images = [] \<rparr>
      in add_layout_image
           \<lparr> source = ''/assets/london_flag.png'', xref = ''paper'', yref = ''paper'',
             img_x = 1 / 2, img_y = 1 / 2, sizex = 1, sizey = 1,
             xanchor = ''center'', yanchor = ''middle'', opacity = 9 / 100 \<rparr>
           fig)"

section \<open>The page and its reactive wiring (app.py, lines 45 to 230 and the decorators)\<close>

text \<open>
  What the page shows is the value of each property of each component; a property is
  named by the component's id and its own name.
\<close>

datatype property =
    Fig figure
  | Records "row list"
  | Number nat
  | Options "(string \<times> string) list"
  | Values "string list option"
  | Value "string option"

type_synonym page = "string \<times> string \<Rightarrow> property option"

text \<open>
  The properties the layout sets on the three controls, and the data and the page size
  of the table. The table gets \<open>df.head(25).to_dict("records")\<close>, the first 25 rows
  without their labels, and \<open>page_size=10\<close>. The five graphs start without a figure.
\<close>

definition layout :: "frame \<Rightarrow> page" where
  "layout df =
     [ (''room-type-filter'', ''options'') \<mapsto> Options (room_type_options df),
       (''room-type-filter'', ''value'') \<mapsto> Values (Some (map snd (room_type_options df))),
       (''time-period-filter'', ''options'') \<mapsto> Options (time_period_options df),
       (''time-period-filter'', ''value'') \<mapsto>
          Values (Some (map snd (time_period_options df))),
       (''satisfaction-filter'', ''options'') \<mapsto>
          Options ((''All'', ''All'') # sat_bucket_options df),
       (''satisfaction-filter'', ''value'') \<mapsto> Value (Some ''All''),
       (''cleaned-table'', ''data'') \<mapsto> Records (map snd (take 25 df)),
       (''cleaned-table'', ''page_size'') \<mapsto> Number 10 ]"

text \<open>
  The five callbacks: the \<open>Output\<close> of each decorator and the function it decorates.
  All five have the same three \<open>Input\<close>s, the values of the three controls.
\<close>

definition callbacks ::
  "pandas \<Rightarrow> frame \<Rightarrow>
     ((string \<times> string) \<times>
      (string list option \<Rightarrow> string list option \<Rightarrow> string option \<Rightarrow> property)) list" where
  "callbacks pd df =
     [ ((''price-distance'', ''figure''), \<lambda>room timep sat.
          Fig (update_price_dist pd df room timep sat)),
       ((''avg-price-distance'', ''figure''),
          \<lambda>room timep sat. Fig (update_avg pd df room timep sat)),
       ((''attr-price'', ''figure''), \<lambda>room timep sat. Fig (update_attr pd df room timep sat)),
       ((''box-distance'', ''figure''), \<lambda>room timep sat. Fig (update_box pd df room timep sat)),
       ((''price-hist'', ''figure''), \<lambda>room timep sat. Fig (update_hist pd df room timep sat)) ]"

text \<open>
  One change of the selection: the controls take the new values, every callback runs on
  them and its result replaces the property named by its \<open>Output\<close>.
\<close>

definition fire ::
  "pandas \<Rightarrow> frame \<Rightarrow> string list option \<times> string list option \<times> string option
     \<Rightarrow> page \<Rightarrow> page" where
  "fire pd df sel pg =
     (case sel of (room, timep, sat) \<Rightarrow>
        foldl (\<lambda>pg cb. pg(fst cb \<mapsto> snd cb room timep sat))
          (pg((''room-type-filter'', ''value'') \<mapsto> Values room,
              (''time-period-filter'', ''value'') \<mapsto> Values timep,
              (''satisfaction-filter'', ''value'') \<mapsto> Value sat))
          (callbacks pd df))"

text \<open>The page after a sequence of changes of the selection, from the layout on.\<close>

definition session ::
  "pandas \<Rightarrow> frame \<Rightarrow> (string list option \<times> string list option \<times> string option) list
     \<Rightarrow> page" where
  "session pd df sels = foldl (\<lambda>pg sel. fire pd df sel pg) (layout df) sels"

section \<open>The filter on a store of objects\<close>

text \<open>
  To see what a call of \<open>filter_df\<close> does to the frame that the global name \<open>df\<close>
  refers to, frames live in a store and a variable holds a reference. \<open>df.copy()\<close> and
  \<open>d[mask]\<close> each make a new frame; the assignments of the function rebind its local
  name \<open>d\<close>. A read through a reference that has no frame fails (\<open>None\<close>).
\<close>

type_synonym ref = nat

record store =
  objects :: "ref \<Rightarrow> frame option"
  fresh :: ref

definition new :: "frame \<Rightarrow> store \<Rightarrow> ref \<times> store" where
  "new f s = (fresh s, s\<lparr>objects := (objects s)(fresh s \<mapsto> f), fresh := Suc (fresh s)\<rparr>)"

definition copy_st :: "ref \<Rightarrow> store \<Rightarrow> (ref \<times> store) option" where
  "copy_st p s = (case objects s p of None \<Rightarrow> None | Some f \<Rightarrow> Some (new (copy f) s))"

definition getitem_st :: "ref \<Rightarrow> (row \<Rightarrow> bool) \<Rightarrow> store \<Rightarrow> (ref \<times> store) option" where
  "getitem_st p keep s =
     (case objects s p of None \<Rightarrow> None | Some f \<Rightarrow> Some (new (getitem f keep) s))"

definition filter_df_st ::
  "pandas \<Rightarrow> ref \<Rightarrow> string list option \<Rightarrow> string list option \<Rightarrow> string option \<Rightarrow> store
     \<Rightarrow> (ref \<times> store) option" where
  "filter_df_st pd df room_types time_periods sat s =
     do {
       (d, s) \<leftarrow> copy_st df s;
       (d, s) \<leftarrow> (if truthy room_types
                  then getitem_st d (\<lambda>r. isin (room_type r) room_types) s
                  else Some (d, s));
       (d, s) \<leftarrow> (if truthy time_periods
                  then getitem_st d (\<lambda>r. isin (time_period r) time_periods) s
                  else Some (d, s));
       (d, s) \<leftarrow> (if sat \<noteq> Some ''All''
                  then getitem_st d
                         (\<lambda>r. eq_scalar (astype_str (na_as_text pd) (satisfaction_bucket r)) sat) s
                  else Some (d, s));
       Some (d, s)
     }"

text \<open>A sequence of calls of the filter, each on the store the one before left.\<close>

fun filter_calls ::
  "pandas \<Rightarrow> ref \<Rightarrow> (string list option \<times> string list option \<times> string option) list
     \<Rightarrow> store \<Rightarrow> store option" where
  "filter_calls pd df [] s = Some s"
| "filter_calls pd df ((room, timep, sat) # sels) s =
     (case filter_df_st pd df room timep sat s of
        None \<Rightarrow> None
      | Some (d, s') \<Rightarrow> filter_calls pd df sels s')"

text \<open>Every frame of the store was made before \<open>fresh\<close>.\<close>

definition wf_store :: "store \<Rightarrow> bool" where
  "wf_store s \<longleftrightarrow> (\<forall>p. fresh s \<le> p \<longrightarrow> objects s p = None)"

text \<open>The store right after the load: the frame of \<open>df\<close> at reference 0.\<close>

definition loaded :: "frame \<Rightarrow> store" where
  "loaded f = \<lparr> objects = [0 \<mapsto> f], fresh = 1 \<rparr>"

section \<open>The scenario of the specification\<close>

definition mk_row :: "string \<Rightarrow> string \<Rightarrow> rat \<Rightarrow> string \<Rightarrow> string listing" where
  "mk_row rt tp price bucket =
     \<lparr> realSum = price, price_per_person = price / 2, dist_centre = 1, attr_index = 1,
       person_capacity = 2, room_type = rt, time_period = tp,
       distance_bucket = ''Near'', satisfaction_bucket = bucket,
       host_is_superhost = False \<rparr>"

definition scenario :: "string listing list" where
  "scenario =
     [mk_row ''Entire home'' ''Weekday'' 100 ''High'',
      mk_row ''Private room'' ''Weekday'' 50 '''',
      mk_row ''Entire home'' ''Weekend'' 200 ''Low'']"

text \<open>The scenario with one more listing, so that one group has two rows.\<close>

definition scenario_more :: "string listing list" where
  "scenario_more = scenario @ [mk_row ''Entire home'' ''Weekday'' 200 ''High'']"

text \<open>
  Two installations for the worked examples, one before pandas 3.0 and one from 3.0 on.
  The prices of the examples are small whole numbers, on which float64 addition and
  halving are exact, so that there \<open>mean()\<close> returns the arithmetic mean.
\<close>

definition arithmetic_mean :: "rat list \<Rightarrow> rat" where
  "arithmetic_mean xs = sum_list xs / of_nat (length xs)"

definition before_3 :: pandas where
  "before_3 = \<lparr> observed_default = False, na_as_text = True, float_mean = arithmetic_mean \<rparr>"

definition from_3 :: pandas where
  "from_3 = \<lparr> observed_default = True, na_as_text = False, float_mean = arithmetic_mean \<rparr>"

section \<open>Properties of the filter\<close>

lemma truthy_members: "truthy v \<longleftrightarrow> members v \<noteq> {}"
  by (cases v) (simp_all add: truthy_def members_def)

lemma isin_members: "isin x v \<longleftrightarrow> x \<in> members v"
  by (cases v) (simp_all add: isin_def members_def)

lemma eq_scalar_bucket_text:
  "eq_scalar (astype_str (na_as_text pd) (satisfaction_bucket r)) sat
     \<longleftrightarrow> bucket_text pd r \<noteq> None \<and> bucket_text pd r = sat"
  by (cases "astype_str (na_as_text pd) (satisfaction_bucket r)")
     (auto simp: bucket_text_def)

lemma filter_df_as_filter:
  "filter_df pd df room_types time_periods sat =
     filter (\<lambda>x. passes_room room_types (snd x) \<and> passes_time time_periods (snd x)
                 \<and> passes_sat pd sat (snd x)) df"
proof -
  have room: "(if truthy room_types
               then getitem d (\<lambda>r. isin (room_type r) room_types) else d)
              = filter (\<lambda>x. passes_room room_types (snd x)) d" for d
    by (simp add: getitem_def passes_room_def truthy_members isin_members)
  have time: "(if truthy time_periods
               then getitem d (\<lambda>r. isin (time_period r) time_periods) else d)
              = filter (\<lambda>x. passes_time time_periods (snd x)) d" for d
    by (simp add: getitem_def passes_time_def truthy_members isin_members)
  have sat: "(if sat \<noteq> Some ''All''
              then getitem d
                     (\<lambda>r. eq_scalar (astype_str (na_as_text pd) (satisfaction_bucket r)) sat)
              else d)
             = filter (\<lambda>x. passes_sat pd sat (snd x)) d" for d
    by (simp add: getitem_def passes_sat_def eq_scalar_bucket_text)
  show ?thesis
    unfolding filter_df_def Let_def copy_def room time sat
    by (auto intro: filter_cong)
qed

lemmas scenario_eval = read_csv_def scenario_def scenario_more_def mk_row_def read_row_def
  read_cell_def STR_NA_VALUES_def filter_df_def getitem_def copy_def truthy_def isin_def
  enumerate_eq_zip members_def passes_room_def passes_time_def passes_sat_def satisfies_def
  bucket_text_def bucket_texts_def before_3_def from_3_def

text \<open>
  Claim C1. An empty \<open>room_types\<close> is no filter on the room type: the result is the
  rows that pass the other two conditions, so every row passes on that axis. The same
  holds for an empty \<open>time_periods\<close>.
\<close>

theorem filter_df_empty_selection_unfiltered:
  "filter_df pd df (Some []) time_periods sat
     = filter (\<lambda>x. passes_time time_periods (snd x) \<and> passes_sat pd sat (snd x)) df
   \<and> filter_df pd df room_types (Some []) sat
     = filter (\<lambda>x. passes_room room_types (snd x) \<and> passes_sat pd sat (snd x)) df"
  by (simp add: filter_df_as_filter passes_room_def passes_time_def members_def)

theorem filter_df_empty_selection_unfiltered_witness:
  "filter_df before_3 (read_csv scenario) (Some []) (Some [''Weekday'']) (Some ''High'')
     = [(0, read_row (mk_row ''Entire home'' ''Weekday'' 100 ''High''))]
   \<and> filter_df before_3 (read_csv scenario) (Some [''Entire home'']) (Some []) (Some ''Low'')
     = [(2, read_row (mk_row ''Entire home'' ''Weekend'' 200 ''Low''))]"
  using filter_df_empty_selection_unfiltered
    [where pd = before_3 and df = "read_csv scenario" and time_periods = "Some [''Weekday'']"
       and sat = "Some ''High''" and room_types = "Some [''Entire home'']"]
  by (simp add: scenario_eval)

text \<open>
  Claim C2. The output of the filter is exactly the rows of the data set that satisfy the
  three conditions, in the order of the data set.
\<close>

theorem filter_df_exact_rows:
  "filter_df pd df room_types time_periods sat
     = filter (\<lambda>x. satisfies pd room_types time_periods sat (snd x)) df"
  by (simp add: filter_df_as_filter satisfies_def)

theorem filter_df_exact_rows_witness:
  "filter_df before_3 (read_csv scenario) (Some [''Entire home''])
       (Some [''Weekday'', ''Weekend'']) (Some ''Low'')
     = [(2, read_row (mk_row ''Entire home'' ''Weekend'' 200 ''Low''))]"
  using filter_df_exact_rows
    [where pd = before_3 and df = "read_csv scenario" and room_types = "Some [''Entire home'']"
       and time_periods = "Some [''Weekday'', ''Weekend'']" and sat = "Some ''Low''"]
  by (simp add: scenario_eval)

text \<open>
  The scenario of the specification: with \<open>room_types = ["Entire home"]\<close>, no time
  period and \<open>"All"\<close> the filter returns the first and the third row.
\<close>

lemma filter_df_scenario:
  "map fst (filter_df before_3 (read_csv scenario) (Some [''Entire home'']) (Some []) (Some ''All''))
     = [0, 2]"
  by (simp add: scenario_eval)

text \<open>
  Claim C4. With \<open>satisfaction = "All"\<close> the filter returns what its first two steps
  alone return: the rows that pass the room-type and the time-period condition.
\<close>

theorem filter_df_sat_All:
  "filter_df pd df room_types time_periods (Some ''All'') = filter_room_time df room_types time_periods
   \<and> filter_df pd df room_types time_periods (Some ''All'')
     = filter (\<lambda>x. passes_room room_types (snd x) \<and> passes_time time_periods (snd x)) df"
proof
  show "filter_df pd df room_types time_periods (Some ''All'')
          = filter_room_time df room_types time_periods"
    by (simp add: filter_df_def filter_room_time_def)
  show "filter_df pd df room_types time_periods (Some ''All'')
          = filter (\<lambda>x. passes_room room_types (snd x) \<and> passes_time time_periods (snd x)) df"
    by (simp add: filter_df_as_filter passes_sat_def)
qed

theorem filter_df_sat_All_witness:
  "filter_df before_3 (read_csv scenario) (Some [''Entire home'']) (Some [''Weekend'']) (Some ''All'')
     = [(2, read_row (mk_row ''Entire home'' ''Weekend'' 200 ''Low''))]"
  using filter_df_sat_All
    [where pd = before_3 and df = "read_csv scenario" and room_types = "Some [''Entire home'']"
       and time_periods = "Some [''Weekend'']"]
  by (simp add: scenario_eval)

lemma fst_read_csv: "map fst (read_csv recs) = [0..<length recs]"
  by (simp add: read_csv_def enumerate_eq_zip)

text \<open>
  Claim C5. The output of the filter is a subsequence of the data set: every row of it is
  a row of the data set, none is taken twice, and the order is that of the data set. On
  the loaded data the labels of the output are a subsequence of \<open>0, 1, 2, ...\<close>, hence
  distinct.
\<close>

theorem filter_df_subsequence:
  "subseq (filter_df pd df room_types time_periods sat) df
   \<and> subseq (map fst (filter_df pd (read_csv recs) room_types time_periods sat)) [0..<length recs]
   \<and> distinct (map fst (filter_df pd (read_csv recs) room_types time_periods sat))"
proof (intro conjI)
  show sub: "subseq (filter_df pd df room_types time_periods sat) df" for df
    by (simp add: filter_df_as_filter)
  show "subseq (map fst (filter_df pd (read_csv recs) room_types time_periods sat))
          [0..<length recs]"
    using subseq_map [OF sub [of "read_csv recs"], of fst] by (simp add: fst_read_csv)
  have "distinct (map fst (read_csv recs))"
    by (simp add: fst_read_csv)
  then show "distinct (map fst (filter_df pd (read_csv recs) room_types time_periods sat))"
    unfolding filter_df_as_filter by (rule distinct_map_filter)
qed

theorem filter_df_subsequence_witness:
  "subseq (filter_df before_3 (read_csv scenario) (Some [''Entire home'']) None (Some ''All''))
     (read_csv scenario)
   \<and> map fst (filter_df before_3 (read_csv scenario) (Some [''Entire home'']) None (Some ''All''))
       = [0, 2]"
  using filter_df_subsequence
    [where pd = before_3 and df = "read_csv scenario" and room_types = "Some [''Entire home'']"
       and time_periods = None and sat = "Some ''All''" and recs = scenario]
  by (simp add: scenario_eval)

subsection \<open>The filter on the store\<close>

lemma new_run:
  assumes "wf_store s" and "new f s = (p, s')"
  shows "objects s' p = Some f \<and> wf_store s' \<and> fresh s \<le> fresh s'
           \<and> (\<forall>q<fresh s. objects s' q = objects s q)"
  using assms by (auto simp: new_def wf_store_def)

lemma cond_getitem_run:
  assumes "wf_store s" and "objects s d = Some g"
  shows "\<exists>d' s'. (if c then getitem_st d keep s else Some (d, s)) = Some (d', s')
           \<and> objects s' d' = Some (if c then getitem g keep else g)
           \<and> wf_store s' \<and> fresh s \<le> fresh s'
           \<and> (\<forall>q<fresh s. objects s' q = objects s q)"
proof (cases c)
  case True
  obtain p s' where new: "new (getitem g keep) s = (p, s')"
    by (cases "new (getitem g keep) s")
  then have "getitem_st d keep s = Some (p, s')"
    using assms(2) by (simp add: getitem_st_def)
  with True new_run [OF assms(1) new] show ?thesis
    by simp
next
  case False
  with assms show ?thesis by simp
qed

lemma copy_st_run:
  assumes "wf_store s" and "objects s p = Some f"
  shows "\<exists>d' s'. copy_st p s = Some (d', s') \<and> objects s' d' = Some f
           \<and> wf_store s' \<and> fresh s \<le> fresh s'
           \<and> (\<forall>q<fresh s. objects s' q = objects s q)"
proof -
  obtain d' s' where new: "new (copy f) s = (d', s')"
    by (cases "new (copy f) s")
  then have "copy_st p s = Some (d', s')"
    using assms(2) by (simp add: copy_st_def)
  with new_run [OF assms(1) new] show ?thesis
    by (simp add: copy_def)
qed

text \<open>
  A call of the filter on the store succeeds, returns a reference to the frame that the
  pure reading computes, and leaves every frame that was there as it was.
\<close>

lemma filter_df_st_run:
  assumes "wf_store s" and "objects s df = Some f"
  shows "\<exists>d s'. filter_df_st pd df room_types time_periods sat s = Some (d, s')
           \<and> objects s' d = Some (filter_df pd f room_types time_periods sat)
           \<and> wf_store s' \<and> fresh s \<le> fresh s'
           \<and> (\<forall>q<fresh s. objects s' q = objects s q)"
proof -
  obtain d0 s0 where 0: "copy_st df s = Some (d0, s0)" "objects s0 d0 = Some f"
      "wf_store s0" "fresh s \<le> fresh s0" "\<forall>q<fresh s. objects s0 q = objects s q"
    using copy_st_run [OF assms] by blast
  let ?f1 = "if truthy room_types then getitem f (\<lambda>r. isin (room_type r) room_types) else f"
  obtain d1 s1 where 1:
      "(if truthy room_types then getitem_st d0 (\<lambda>r. isin (room_type r) room_types) s0
        else Some (d0, s0)) = Some (d1, s1)"
      "objects s1 d1 = Some ?f1"
      "wf_store s1" "fresh s0 \<le> fresh s1" "\<forall>q<fresh s0. objects s1 q = objects s0 q"
    using cond_getitem_run [OF 0(3) 0(2)] by blast
  let ?f2 = "if truthy time_periods then getitem ?f1 (\<lambda>r. isin (time_period r) time_periods)
             else ?f1"
  obtain d2 s2 where 2:
      "(if truthy time_periods then getitem_st d1 (\<lambda>r. isin (time_period r) time_periods) s1
        else Some (d1, s1)) = Some (d2, s2)"
      "objects s2 d2 = Some ?f2"
      "wf_store s2" "fresh s1 \<le> fresh s2" "\<forall>q<fresh s1. objects s2 q = objects s1 q"
    using cond_getitem_run [OF 1(3) 1(2)] by blast
  let ?f3 = "if sat \<noteq> Some ''All''
             then getitem ?f2 (\<lambda>r. eq_scalar (astype_str (na_as_text pd) (satisfaction_bucket r)) sat) else ?f2"
  obtain d3 s3 where 3:
      "(if sat \<noteq> Some ''All''
        then getitem_st d2 (\<lambda>r. eq_scalar (astype_str (na_as_text pd) (satisfaction_bucket r)) sat) s2
        else Some (d2, s2)) = Some (d3, s3)"
      "objects s3 d3 = Some ?f3"
      "wf_store s3" "fresh s2 \<le> fresh s3" "\<forall>q<fresh s2. objects s3 q = objects s2 q"
    using cond_getitem_run [OF 2(3) 2(2)] by blast
  have run: "filter_df_st pd df room_types time_periods sat s = Some (d3, s3)"
    unfolding filter_df_st_def by (simp add: 0(1) 1(1) 2(1) 3(1))
  have res: "objects s3 d3 = Some (filter_df pd f room_types time_periods sat)"
    using 3(2) by (simp add: filter_df_def copy_def Let_def)
  have keep: "\<forall>q<fresh s. objects s3 q = objects s q"
    using 0(4,5) 1(4,5) 2(4,5) 3(5) by (metis less_le_trans)
  have "fresh s \<le> fresh s3"
    using 0(4) 1(4) 2(4) 3(4) by linarith
  with run res 3(3) keep show ?thesis
    by simp
qed

lemma wf_store_bound: "wf_store s \<Longrightarrow> objects s p = Some f \<Longrightarrow> p < fresh s"
  unfolding wf_store_def by (metis not_le_imp_less option.distinct(1))

lemma filter_calls_run:
  assumes "wf_store s" and "objects s df = Some f"
  shows "\<exists>s'. filter_calls pd df sels s = Some s' \<and> wf_store s' \<and> fresh s \<le> fresh s'
           \<and> (\<forall>q<fresh s. objects s' q = objects s q)"
  using assms
proof (induction sels arbitrary: s)
  case Nil
  then show ?case by simp
next
  case (Cons sel sels)
  obtain room timep sat where sel: "sel = (room, timep, sat)"
    by (cases sel)
  obtain d s1 where 1: "filter_df_st pd df room timep sat s = Some (d, s1)" "wf_store s1"
      "fresh s \<le> fresh s1" "\<forall>q<fresh s. objects s1 q = objects s q"
    using filter_df_st_run [OF Cons.prems] by blast
  have "df < fresh s"
    using Cons.prems by (rule wf_store_bound)
  with 1(4) Cons.prems(2) have "objects s1 df = Some f"
    by simp
  from Cons.IH [OF 1(2) this] obtain s' where 2: "filter_calls pd df sels s1 = Some s'"
      "wf_store s'" "fresh s1 \<le> fresh s'" "\<forall>q<fresh s1. objects s' q = objects s1 q"
    by blast
  have "\<forall>q<fresh s. objects s' q = objects s q"
    using 1(3,4) 2(4) by (metis less_le_trans)
  moreover have "fresh s \<le> fresh s'"
    using 1(3) 2(3) by linarith
  ultimately show ?case
    using sel 1(1) 2(1,2) by simp
qed

text \<open>
  Claim C6. No call of the filter changes the loaded data set: after any sequence of
  calls, with any selections, the frame of \<open>df\<close> is the frame it was, and so is every
  other frame that existed before. The callbacks reach \<open>df\<close> through the filter only.
\<close>

theorem filter_calls_leave_df:
  assumes "wf_store s" and "objects s df = Some f"
  shows "\<exists>s'. filter_calls pd df sels s = Some s' \<and> objects s' df = Some f
           \<and> (\<forall>q<fresh s. objects s' q = objects s q)"
proof -
  obtain s' where run: "filter_calls pd df sels s = Some s'"
      "\<forall>q<fresh s. objects s' q = objects s q"
    using filter_calls_run [OF assms] by blast
  moreover have "df < fresh s"
    using assms by (rule wf_store_bound)
  ultimately show ?thesis
    using assms(2) by simp
qed

theorem filter_calls_leave_df_witness:
  "wf_store (loaded (read_csv scenario))
   \<and> objects (loaded (read_csv scenario)) 0 = Some (read_csv scenario)
   \<and> map_option (\<lambda>s'. objects s' 0)
       (filter_calls before_3 0 [(Some [''Entire home''], Some [], Some ''All''),
                                 (None, Some [''Weekday''], Some ''High'')]
          (loaded (read_csv scenario)))
     = Some (Some (read_csv scenario))"
proof -
  have wf: "wf_store (loaded (read_csv scenario))"
    by (simp add: loaded_def wf_store_def)
  have df: "objects (loaded (read_csv scenario)) 0 = Some (read_csv scenario)"
    by (simp add: loaded_def)
  show ?thesis
    using wf df filter_calls_leave_df [OF wf df,
      of before_3 "[(Some [''Entire home''], Some [], Some ''All''),
                    (None, Some [''Weekday''], Some ''High'')]"]
    by auto
qed

subsection \<open>Unknown values\<close>




subsection \<open>Missing satisfaction buckets\<close>

lemma nan_is_na: "''nan'' \<in> set STR_NA_VALUES"
  by (simp add: STR_NA_VALUES_def)

lemma read_cell_not_nan: "read_cell s \<noteq> Label ''nan''"
  using nan_is_na by (auto simp: read_cell_def)

lemma read_csv_bucket:
  "x \<in> set (read_csv recs) \<Longrightarrow> \<exists>s. satisfaction_bucket (snd x) = read_cell s"
proof -
  assume "x \<in> set (read_csv recs)"
  then have "(fst x, snd x) \<in> set (zip [0..<length recs] (map read_row recs))"
    by (simp add: read_csv_def enumerate_eq_zip)
  then have "snd x \<in> set (map read_row recs)"
    by (rule set_zip_rightD)
  then show ?thesis
    by (auto simp: read_row_def)
qed

lemma sat_bucket_options_value:
  assumes "v \<in> snd ` set (sat_bucket_options df)"
  shows "\<exists>x \<in> set df. satisfaction_bucket (snd x) = Label v"
proof -
  from assms have "\<exists>x \<in> set df. satisfaction_bucket (snd x) \<noteq> NaN
      \<and> v = str_of (satisfaction_bucket (snd x))"
    by (auto simp: sat_bucket_options_def unique_def dropna_def)
  then obtain x where x: "x \<in> set df" "satisfaction_bucket (snd x) \<noteq> NaN"
      "v = str_of (satisfaction_bucket (snd x))"
    by blast
  then have "satisfaction_bucket (snd x) = Label v"
    by (cases "satisfaction_bucket (snd x)") simp_all
  with x(1) show ?thesis
    by blast
qed

text \<open>
  Claim C10. When \<open>satisfaction\<close> is not \<open>"All"\<close> and is the value of one of the bucket
  options of the loaded data, no row of the output has a missing bucket: a missing bucket
  either stays missing under \<open>astype(str)\<close> and equals nothing, or becomes the text
  \<open>nan\<close>, which the load never leaves as a label.
\<close>

theorem filter_df_label_excludes_missing:
  assumes "sat \<noteq> ''All''" and "sat \<in> snd ` set (sat_bucket_options (read_csv recs))"
  shows "\<forall>x \<in> set (filter_df pd (read_csv recs) room_types time_periods (Some sat)).
           satisfaction_bucket (snd x) \<noteq> NaN"
proof
  fix x assume x: "x \<in> set (filter_df pd (read_csv recs) room_types time_periods (Some sat))"
  from assms(2) obtain y where y: "y \<in> set (read_csv recs)"
      "satisfaction_bucket (snd y) = Label sat"
    using sat_bucket_options_value by blast
  from read_csv_bucket [OF y(1)] y(2) read_cell_not_nan have "sat \<noteq> ''nan''"
    by metis
  moreover from x assms(1)
  have "eq_scalar (astype_str (na_as_text pd) (satisfaction_bucket (snd x))) (Some sat)"
    by (simp add: filter_df_as_filter passes_sat_def eq_scalar_bucket_text)
  ultimately show "satisfaction_bucket (snd x) \<noteq> NaN"
    by (cases "na_as_text pd") auto
qed

theorem filter_df_label_excludes_missing_witness:
  "''High'' \<noteq> ''All''
   \<and> ''High'' \<in> snd ` set (sat_bucket_options (read_csv scenario))
   \<and> list_all (\<lambda>x. satisfaction_bucket (snd x) \<noteq> NaN)
       (filter_df before_3 (read_csv scenario) None None (Some ''High''))"
proof -
  have h: "''High'' \<in> snd ` set (sat_bucket_options (read_csv scenario))"
    by (simp add: scenario_eval sat_bucket_options_def unique_def dropna_def)
  show ?thesis
    using h filter_df_label_excludes_missing [OF _ h, of before_3 None None]
    by (simp add: list_all_iff)
qed

subsection \<open>The preview table\<close>

lemma fire_keeps_table:
  "fire pd df sel pg (''cleaned-table'', k) = pg (''cleaned-table'', k)"
  by (cases sel) (simp add: fire_def callbacks_def)

lemma fires_keep_table:
  "foldl (\<lambda>pg sel. fire pd df sel pg) pg sels (''cleaned-table'', k)
     = pg (''cleaned-table'', k)"
  by (induction sels arbitrary: pg) (simp_all add: fire_keeps_table)

text \<open>
  Claim C9. Whatever the selections made, the preview table shows the first 25 rows of
  the unfiltered data set with page size 10: no callback has the table as its output.
\<close>

theorem session_preview_table:
  "session pd df sels (''cleaned-table'', ''data'') = Some (Records (map snd (take 25 df)))
   \<and> session pd df sels (''cleaned-table'', ''page_size'') = Some (Number 10)"
  unfolding session_def fires_keep_table by (simp add: layout_def)

theorem session_preview_table_witness:
  "session from_3 (read_csv scenario)
       [(Some [''Entire home''], Some [], Some ''All''), (Some [''Castle''], None, Some ''Low'')]
       (''cleaned-table'', ''data'')
     = Some (Records (map read_row scenario))
   \<and> session from_3 (read_csv scenario)
       [(Some [''Entire home''], Some [], Some ''All''), (Some [''Castle''], None, Some ''Low'')]
       (''cleaned-table'', ''page_size'')
     = Some (Number 10)"
  using session_preview_table [of from_3 "read_csv scenario"
    "[(Some [''Entire home''], Some [], Some ''All''), (Some [''Castle''], None, Some ''Low'')]"]
  by (simp add: read_csv_def enumerate_eq_zip scenario_def)

subsection \<open>The aggregation\<close>















end
